theory Spec2Isabelle
  imports Complex_Main
begin

section \<open>Conventions of the embedding\<close>

text \<open>
  The Python sources compute on floats and ints. Floats are modelled as \<^typ>\<open>real\<close>: every
  decision of the code is a comparison of a feature value with a constant, and the scores
  are products and sums with small constants, so the model reads the values as exact
  numbers (no NaN, no rounding). Python ints are \<^typ>\<open>int\<close>, list lengths are \<^typ>\<open>nat\<close>.
  A feature dictionary is a partial map from field names to values, and
  \<^verbatim>\<open>features.get(key, default)\<close> is \<open>dict_get\<close>.
  Mutation of \<^verbatim>\<open>self\<close> is explicit state passing: a method returns its value together
  with the updated object.
\<close>

type_synonym features = "string \<rightharpoonup> real"

definition dict_get :: "features \<Rightarrow> string \<Rightarrow> real \<Rightarrow> real" where
  "dict_get d k dflt = (case d k of Some v \<Rightarrow> v | None \<Rightarrow> dflt)"

section \<open>src/src/enhanced\_risk\_score.py: TemporalAlertBuffer\<close>

record TemporalAlertBuffer =
  buffer_size :: int
  recent_alerts :: "bool list"

text \<open>\<^verbatim>\<open>__init__\<close> stores its argument and an empty list; it checks nothing.\<close>

definition TemporalAlertBuffer_init :: "int \<Rightarrow> TemporalAlertBuffer" where
  "TemporalAlertBuffer_init n = \<lparr>buffer_size = n, recent_alerts = []\<rparr>"

text \<open>
  \<^verbatim>\<open>should_alert\<close>: append, pop the first entry once if the list is longer than
  \<^verbatim>\<open>buffer_size\<close> (the list is non-empty there, so \<^verbatim>\<open>pop(0)\<close> cannot raise), then
  \<^verbatim>\<open>all(...)\<close> if the length equals \<^verbatim>\<open>buffer_size\<close>, else \<^verbatim>\<open>False\<close>.
\<close>

definition should_alert :: "TemporalAlertBuffer \<Rightarrow> bool \<Rightarrow> bool \<times> TemporalAlertBuffer" where
  "should_alert self current_prediction =
     (let appended = recent_alerts self @ [current_prediction];
          kept = (if int (length appended) > buffer_size self then tl appended else appended);
          self' = self\<lparr>recent_alerts := kept\<rparr>
      in if int (length kept) = buffer_size self
         then (list_all (\<lambda>x. x) kept, self')
         else (False, self'))"

definition buffer_reset :: "TemporalAlertBuffer \<Rightarrow> TemporalAlertBuffer" where
  "buffer_reset self = self\<lparr>recent_alerts := []\<rparr>"

text \<open>
  A session is a sequence of method calls on one buffer. \<open>feed\<close> runs \<^verbatim>\<open>should_alert\<close>
  on a sequence of raw alerts and collects the answers; \<open>run_calls\<close> runs any sequence of
  the two methods.
\<close>

fun feed :: "TemporalAlertBuffer \<Rightarrow> bool list \<Rightarrow> bool list \<times> TemporalAlertBuffer" where
  "feed self [] = ([], self)"
| "feed self (p # ps) =
     (let (r, self') = should_alert self p;
          (rs, self'') = feed self' ps
      in (r # rs, self''))"

datatype buffer_call = Should_alert bool | Reset

fun run_calls :: "TemporalAlertBuffer \<Rightarrow> buffer_call list \<Rightarrow> TemporalAlertBuffer" where
  "run_calls self [] = self"
| "run_calls self (Should_alert p # cs) = run_calls (snd (should_alert self p)) cs"
| "run_calls self (Reset # cs) = run_calls (buffer_reset self) cs"

section \<open>src/src/enhanced\_risk\_score.py: EnhancedRiskScorer\<close>

record EnhancedRiskScorer =
  alert_buffer :: TemporalAlertBuffer
  min_confidence :: real
  min_abnormal_signals :: int
  motion_threshold :: real
  critical_override :: bool

definition EnhancedRiskScorer_init ::
  "int \<Rightarrow> real \<Rightarrow> int \<Rightarrow> real \<Rightarrow> bool \<Rightarrow> EnhancedRiskScorer" where
  "EnhancedRiskScorer_init temporal_buffer_size min_conf min_abnormal motion_thr crit_override =
     \<lparr>alert_buffer = TemporalAlertBuffer_init temporal_buffer_size,
      min_confidence = min_conf,
      min_abnormal_signals = min_abnormal,
      motion_threshold = motion_thr,
      critical_override = crit_override\<rparr>"

text \<open>The constructor's keyword defaults.\<close>

definition default_scorer :: EnhancedRiskScorer where
  "default_scorer = EnhancedRiskScorer_init 3 (7 / 10) 2 (1 / 2) True"

text \<open>The entries of \<^verbatim>\<open>self.THRESHOLDS\<close>, the same for every instance.\<close>

definition THRESHOLDS_spo2_critical :: real where "THRESHOLDS_spo2_critical = 88"
definition THRESHOLDS_spo2_warning :: real where "THRESHOLDS_spo2_warning = 92"
definition THRESHOLDS_hr_critical :: real where "THRESHOLDS_hr_critical = 140"
definition THRESHOLDS_hr_warning :: real where "THRESHOLDS_hr_warning = 120"
definition THRESHOLDS_hr_low :: real where "THRESHOLDS_hr_low = 50"
definition THRESHOLDS_sbp_critical :: real where "THRESHOLDS_sbp_critical = 90"
definition THRESHOLDS_sbp_warning :: real where "THRESHOLDS_sbp_warning = 100"

definition count_abnormal_signals :: "features \<Rightarrow> nat \<times> string list" where
  "count_abnormal_signals features =
     (let abnormal = [];
          abnormal = (if dict_get features ''spo2_mean'' 100 < THRESHOLDS_spo2_warning
                      then abnormal @ [''spo2_low''] else abnormal);
          abnormal = (if dict_get features ''spo2_min'' 100 < THRESHOLDS_spo2_critical
                      then abnormal @ [''spo2_critical''] else abnormal);
          abnormal = (if dict_get features ''hr_mean'' 70 > THRESHOLDS_hr_warning
                      then abnormal @ [''hr_high''] else abnormal);
          abnormal = (if dict_get features ''hr_max'' 100 > THRESHOLDS_hr_critical
                      then abnormal @ [''hr_critical''] else abnormal);
          abnormal = (if dict_get features ''sbp_mean'' 120 < THRESHOLDS_sbp_warning
                      then abnormal @ [''sbp_low''] else abnormal);
          abnormal = (if dict_get features ''spo2_slope'' 0 < - (1 / 2)
                      then abnormal @ [''spo2_dropping''] else abnormal);
          abnormal = (if dict_get features ''hr_slope'' 0 > 1 / 2
                      then abnormal @ [''hr_rising''] else abnormal)
      in (length abnormal, abnormal))"

definition check_critical_condition :: "features \<Rightarrow> bool \<times> string" where
  "check_critical_condition features =
     (if dict_get features ''spo2_min'' 100 < THRESHOLDS_spo2_critical
        then (True, ''Critical hypoxemia (SpO2 < 88%)'')
      else if dict_get features ''hr_max'' 100 > THRESHOLDS_hr_critical
        then (True, ''Critical tachycardia (HR > 140)'')
      else if dict_get features ''sbp_mean'' 120 < THRESHOLDS_sbp_critical
        then (True, ''Critical hypotension (SBP < 90)'')
      else if dict_get features ''spo2_mean'' 100 < THRESHOLDS_spo2_warning
              \<and> dict_get features ''hr_mean'' 70 > THRESHOLDS_hr_warning
        then (True, ''Combined cardiopulmonary stress'')
      else (False, ''''))"

definition check_physiological_plausibility :: "features \<Rightarrow> bool \<times> string" where
  "check_physiological_plausibility features =
     (if dict_get features ''hr_mean'' 70 < THRESHOLDS_hr_low
         \<and> dict_get features ''spo2_mean'' 95 > 95
        then (False, ''Implausible: Low HR with normal SpO2'')
      else if dict_get features ''spo2_mean'' 100 < 90
              \<and> dict_get features ''hr_mean'' 70 < 80
        then (False, ''Implausible: Severe hypoxia without tachycardia'')
      else
        (let sbp = dict_get features ''sbp_mean'' 120;
             dbp = dict_get features ''dbp_mean'' 80
         in if sbp < dbp \<and> sbp > 0
            then (False, ''Implausible: SBP < DBP (sensor error)'')
            else (True, '''')))"

definition assess_motion_artifact :: "EnhancedRiskScorer \<Rightarrow> features \<Rightarrow> bool \<times> real" where
  "assess_motion_artifact self features =
     (let motion_std = dict_get features ''motion_std'' 0;
          motion_max = dict_get features ''motion_max'' 0;
          is_high_motion = (motion_std > motion_threshold self \<or> motion_max > 1)
      in (is_high_motion, motion_std))"

record debug_info =
  stage :: string
  abnormal_signals :: "string list"
  critical :: bool
  plausible :: bool
  high_motion :: bool
  buffered :: bool

text \<open>
  The explanation strings are f-strings; the model keeps which template was used and the
  values put into it, and leaves the rendering of numbers as text out.
\<close>

datatype explanation =
    Suppressed string
  | CRITICAL string
  | Suppressed_only_signals nat
  | Suppressed_high_motion real
  | Suppressed_low_confidence real
  | Alert_signals nat "string list"
  | Monitoring_awaiting_confirmation

type_synonym risk_result = "real \<times> bool \<times> explanation \<times> debug_info"

definition calculate_risk_score ::
  "EnhancedRiskScorer \<Rightarrow> features \<Rightarrow> real \<Rightarrow> real \<Rightarrow> risk_result \<times> EnhancedRiskScorer" where
  "calculate_risk_score self features anomaly_score confidence =
     (let dbg = \<lparr>stage = '''', abnormal_signals = [], critical = False, plausible = True,
                 high_motion = False, buffered = False\<rparr>;
          (is_plausible, plausibility_reason) = check_physiological_plausibility features;
          dbg = dbg\<lparr>plausible := is_plausible\<rparr>
      in if \<not> is_plausible
         then ((0, False, Suppressed plausibility_reason, dbg\<lparr>stage := ''plausibility_failed''\<rparr>),
               self)
         else
     (let (is_critical, critical_reason) = check_critical_condition features;
          dbg = dbg\<lparr>critical := is_critical\<rparr>
      in if is_critical \<and> critical_override self
         then ((95 + anomaly_score * 5, True, CRITICAL critical_reason,
                dbg\<lparr>stage := ''critical_override''\<rparr>), self)
         else
     (let (abnormal_count, abnormal) = count_abnormal_signals features;
          dbg = dbg\<lparr>abnormal_signals := abnormal\<rparr>
      in if int abnormal_count < min_abnormal_signals self
         then ((anomaly_score * 50, False, Suppressed_only_signals abnormal_count,
                dbg\<lparr>stage := ''insufficient_signals''\<rparr>), self)
         else
     (let (is_high_motion, motion_level) = assess_motion_artifact self features;
          dbg = dbg\<lparr>high_motion := is_high_motion\<rparr>
      in if is_high_motion \<and> \<not> is_critical
         then ((anomaly_score * 40, False, Suppressed_high_motion motion_level,
                dbg\<lparr>stage := ''motion_artifact''\<rparr>), self)
         else if confidence < min_confidence self \<and> \<not> is_critical
         then ((anomaly_score * 60, False, Suppressed_low_confidence confidence,
                dbg\<lparr>stage := ''low_confidence''\<rparr>), self)
         else
     (let base_risk = anomaly_score * 100;
          signal_boost = min (abnormal_count * 5) 20;
          risk_score = min (base_risk + real signal_boost) 100;
          raw_alert = (risk_score > 70);
          (buffered_alert, buffer') = should_alert (alert_buffer self) raw_alert;
          self' = self\<lparr>alert_buffer := buffer'\<rparr>;
          dbg = dbg\<lparr>buffered := buffered_alert\<rparr>
      in if buffered_alert
         then ((risk_score, True, Alert_signals (length abnormal) (take 3 abnormal),
                dbg\<lparr>stage := ''confirmed_alert''\<rparr>), self')
         else ((risk_score, False, Monitoring_awaiting_confirmation,
                dbg\<lparr>stage := ''awaiting_confirmation''\<rparr>), self'))))))"

definition scorer_reset :: "EnhancedRiskScorer \<Rightarrow> EnhancedRiskScorer" where
  "scorer_reset self = self\<lparr>alert_buffer := buffer_reset (alert_buffer self)\<rparr>"

text \<open>
  The guards of stages 1 to 5 of \<^verbatim>\<open>calculate_risk_score\<close>, negated: the window is not
  returned by any of the five early \<^verbatim>\<open>return\<close> statements, so the call goes on to the
  composite score (stage 6) and the temporal buffer (stage 7). The guards do not read the
  anomaly score.
\<close>

definition reaches_temporal_stage :: "EnhancedRiskScorer \<Rightarrow> features \<Rightarrow> real \<Rightarrow> bool" where
  "reaches_temporal_stage self features confidence =
     (let is_plausible = fst (check_physiological_plausibility features);
          is_critical = fst (check_critical_condition features);
          abnormal_count = fst (count_abnormal_signals features);
          is_high_motion = fst (assess_motion_artifact self features)
      in is_plausible
         \<and> \<not> (is_critical \<and> critical_override self)
         \<and> \<not> int abnormal_count < min_abnormal_signals self
         \<and> \<not> (is_high_motion \<and> \<not> is_critical)
         \<and> \<not> (confidence < min_confidence self \<and> \<not> is_critical))"

text \<open>
  The first and the third test dictionary of the module's \<^verbatim>\<open>__main__\<close> block, and a
  window with exactly two abnormal signals (\<^verbatim>\<open>spo2_low\<close> and \<^verbatim>\<open>sbp_low\<close>), no
  critical condition and no motion, which is used to run the later stages.
\<close>

definition test_features_critical :: features where
  "test_features_critical =
     map_of [(''spo2_mean'', 85), (''spo2_min'', 82), (''hr_mean'', 130), (''hr_max'', 145),
             (''sbp_mean'', 110), (''motion_std'', 2 / 10)]"

definition test_features_motion :: features where
  "test_features_motion =
     map_of [(''spo2_mean'', 91), (''spo2_min'', 88), (''hr_mean'', 110), (''hr_max'', 125),
             (''sbp_mean'', 105), (''motion_std'', 8 / 10)]"

definition two_signal_features :: features where
  "two_signal_features = map_of [(''spo2_mean'', 91), (''hr_mean'', 110), (''sbp_mean'', 95)]"

text \<open>Reading the four components of the returned tuple.\<close>

definition risk_score_of :: "risk_result \<times> EnhancedRiskScorer \<Rightarrow> real" where
  "risk_score_of out = fst (fst out)"

definition alert_of :: "risk_result \<times> EnhancedRiskScorer \<Rightarrow> bool" where
  "alert_of out = fst (snd (fst out))"

definition stage_of :: "risk_result \<times> EnhancedRiskScorer \<Rightarrow> string" where
  "stage_of out = stage (snd (snd (snd (fst out))))"

section \<open>src/api/app.py: the safety override of the prediction endpoint\<close>

text \<open>
  One row of the cleaned data frame. \<^verbatim>\<open>clean_vitals\<close> copies the request's columns
  unchanged and adds the three derived columns, so \<open>spo2\<close>, \<open>heart_rate\<close> and \<open>sbp\<close> are
  the raw readings of the request.
\<close>

record clean_row =
  time_sec :: int
  heart_rate :: real
  spo2 :: real
  sbp :: real
  dbp :: real
  motion :: real
  heart_rate_clean :: real
  spo2_clean :: real
  confidence :: real

record response =
  anomaly :: bool
  risk_score :: real
  response_confidence :: real
  safety_override :: bool









section \<open>The rule table of the specification\<close>



section \<open>Basic facts\<close>

lemmas THRESHOLDS_defs =
  THRESHOLDS_spo2_critical_def THRESHOLDS_spo2_warning_def THRESHOLDS_hr_critical_def
  THRESHOLDS_hr_warning_def THRESHOLDS_hr_low_def THRESHOLDS_sbp_critical_def
  THRESHOLDS_sbp_warning_def

lemmas out_defs = risk_score_of_def alert_of_def stage_of_def

subsection \<open>The buffer\<close>

lemma should_alert_size [simp]: "buffer_size (snd (should_alert b p)) = buffer_size b"
  by (simp add: should_alert_def Let_def)

lemma should_alert_fst:
  "fst (should_alert b p) \<longleftrightarrow>
     int (length (recent_alerts (snd (should_alert b p)))) = buffer_size b
     \<and> list_all (\<lambda>x. x) (recent_alerts (snd (should_alert b p)))"
  by (simp add: should_alert_def Let_def)

lemma should_alert_length:
  "int (length (recent_alerts b)) \<le> buffer_size b \<Longrightarrow>
   int (length (recent_alerts (snd (should_alert b p)))) \<le> buffer_size b"
  by (simp add: should_alert_def Let_def)

lemma should_alert_neg:
  "buffer_size b < 0 \<Longrightarrow> recent_alerts b = [] \<Longrightarrow> should_alert b p = (False, b)"
  by (simp add: should_alert_def)

lemma should_alert_zero:
  "buffer_size b = 0 \<Longrightarrow> recent_alerts b = [] \<Longrightarrow> should_alert b p = (True, b)"
  by (simp add: should_alert_def)

lemma run_calls_size [simp]: "buffer_size (run_calls b cs) = buffer_size b"
  by (induction b cs rule: run_calls.induct) (simp_all add: buffer_reset_def)

lemma run_calls_length:
  "0 \<le> buffer_size b \<Longrightarrow> int (length (recent_alerts b)) \<le> buffer_size b \<Longrightarrow>
   int (length (recent_alerts (run_calls b cs))) \<le> buffer_size b"
proof (induction b cs rule: run_calls.induct)
  case (1 self)
  then show ?case by simp
next
  case (2 self p cs)
  then show ?case using should_alert_length [of self p] by simp
next
  case (3 self cs)
  then show ?case by (simp add: buffer_reset_def)
qed

text \<open>What the buffer holds after a call: the last \<open>buffer_size\<close> entries of the old
  contents followed by the new prediction.\<close>

lemma should_alert_recent:
  assumes "int (length (recent_alerts b)) \<le> buffer_size b"
  shows "recent_alerts (snd (should_alert b p)) =
     drop (Suc (length (recent_alerts b)) - nat (buffer_size b)) (recent_alerts b @ [p])"
proof (cases "int (length (recent_alerts b)) = buffer_size b")
  case True
  then have n: "nat (buffer_size b) = length (recent_alerts b)" by simp
  have "recent_alerts (snd (should_alert b p)) = tl (recent_alerts b @ [p])"
    using True by (simp add: should_alert_def Let_def)
  also have "\<dots> = drop (Suc 0) (recent_alerts b @ [p])"
    by (simp only: drop_Suc drop_0)
  finally show ?thesis by (simp add: n)
next
  case False
  with assms have lt: "int (length (recent_alerts b)) < buffer_size b" by simp
  then have "Suc (length (recent_alerts b)) - nat (buffer_size b) = 0" by simp
  moreover have "recent_alerts (snd (should_alert b p)) = recent_alerts b @ [p]"
    using lt by (simp add: should_alert_def Let_def)
  ultimately show ?thesis by simp
qed

lemma drop_after_push:
  assumes "length xs \<le> n"
  shows "drop (length (drop (Suc (length xs) - n) (xs @ [p]) @ ps) - n)
           (drop (Suc (length xs) - n) (xs @ [p]) @ ps)
         = drop (length (xs @ p # ps) - n) (xs @ p # ps)"
proof (cases "length xs = n")
  case True
  have "Suc (length xs) - n = Suc 0" using True by simp
  then have "drop (Suc (length xs) - n) (xs @ [p]) = tl (xs @ [p])"
    by (simp only: drop_Suc drop_0)
  moreover have "length (tl (xs @ [p])) = n" using True by simp
  moreover have "drop (length (xs @ p # ps) - n) (xs @ p # ps)
      = drop (length ps) (tl (xs @ [p]) @ ps)"
  proof -
    have "length (xs @ p # ps) - n = Suc (length ps)" using True by simp
    moreover have "xs @ p # ps = (xs @ [p]) @ ps" by simp
    moreover have "tl ((xs @ [p]) @ ps) = tl (xs @ [p]) @ ps" by (cases xs) simp_all
    ultimately show ?thesis by (simp only: drop_Suc)
  qed
  ultimately show ?thesis by simp
next
  case False
  with assms have "Suc (length xs) - n = 0" by simp
  then show ?thesis by simp
qed

lemma feed_recent:
  assumes "int (length (recent_alerts b)) \<le> buffer_size b"
  shows "recent_alerts (snd (feed b ps)) =
     drop (length (recent_alerts b @ ps) - nat (buffer_size b)) (recent_alerts b @ ps)
     \<and> buffer_size (snd (feed b ps)) = buffer_size b"
  using assms
proof (induction ps arbitrary: b)
  case Nil
  then show ?case by simp
next
  case (Cons p ps)
  let ?b' = "snd (should_alert b p)"
  let ?n = "nat (buffer_size b)"
  have sz: "buffer_size ?b' = buffer_size b" by simp
  have len: "int (length (recent_alerts ?b')) \<le> buffer_size ?b'"
    using should_alert_length [OF Cons.prems, of p] by simp
  have rec: "recent_alerts ?b' =
     drop (Suc (length (recent_alerts b)) - ?n) (recent_alerts b @ [p])"
    using Cons.prems by (rule should_alert_recent)
  have ih: "recent_alerts (snd (feed ?b' ps)) =
     drop (length (recent_alerts ?b' @ ps) - ?n) (recent_alerts ?b' @ ps)
     \<and> buffer_size (snd (feed ?b' ps)) = buffer_size b"
    using Cons.IH [OF len] sz by simp
  have le: "length (recent_alerts b) \<le> ?n" using Cons.prems by simp
  have "drop (length (recent_alerts ?b' @ ps) - ?n) (recent_alerts ?b' @ ps)
      = drop (length (recent_alerts b @ p # ps) - ?n) (recent_alerts b @ p # ps)"
    unfolding rec by (rule drop_after_push [OF le])
  with ih show ?case by (simp add: case_prod_beta)
qed

lemma feed_init_recent:
  assumes "0 \<le> N"
  shows "recent_alerts (snd (feed (TemporalAlertBuffer_init N) ps)) = drop (length ps - nat N) ps"
    and "buffer_size (snd (feed (TemporalAlertBuffer_init N) ps)) = N"
  using feed_recent [of "TemporalAlertBuffer_init N" ps] assms
  by (simp_all add: TemporalAlertBuffer_init_def)

lemma feed_snoc:
  "feed b (ps @ [p]) =
     (fst (feed b ps) @ [fst (should_alert (snd (feed b ps)) p)],
      snd (should_alert (snd (feed b ps)) p))"
  by (induction ps arbitrary: b) (simp_all add: case_prod_beta)

lemma last_N_all_true:
  assumes "0 \<le> N"
  shows "fst (should_alert (snd (feed (TemporalAlertBuffer_init N) ps)) p) \<longleftrightarrow>
     nat N \<le> length (ps @ [p])
     \<and> list_all (\<lambda>x. x) (drop (length (ps @ [p]) - nat N) (ps @ [p]))"
proof -
  let ?b = "snd (feed (TemporalAlertBuffer_init N) ps)"
  let ?b' = "snd (should_alert ?b p)"
  have eq: "?b' = snd (feed (TemporalAlertBuffer_init N) (ps @ [p]))"
    by (simp add: feed_snoc)
  have rec: "recent_alerts ?b' = drop (length (ps @ [p]) - nat N) (ps @ [p])"
    unfolding eq using assms by (rule feed_init_recent(1))
  have sz: "buffer_size ?b = N"
    using assms by (rule feed_init_recent(2))
  have "int (length (recent_alerts ?b')) = N \<longleftrightarrow> nat N \<le> length (ps @ [p])"
    unfolding rec using assms by auto
  then show ?thesis
    unfolding should_alert_fst [of ?b p] sz rec by simp
qed

subsection \<open>The cascade\<close>

lemma calc_temporal:
  assumes "reaches_temporal_stage s f c"
  shows "risk_score_of (calculate_risk_score s f a c) =
           min (a * 100 + real (min (fst (count_abnormal_signals f) * 5) 20)) 100"
    and "alert_of (calculate_risk_score s f a c) =
           fst (should_alert (alert_buffer s) (risk_score_of (calculate_risk_score s f a c) > 70))"
    and "stage_of (calculate_risk_score s f a c) =
           (if alert_of (calculate_risk_score s f a c) then ''confirmed_alert''
            else ''awaiting_confirmation'')"
    and "snd (calculate_risk_score s f a c) =
           s\<lparr>alert_buffer := snd (should_alert (alert_buffer s)
               (risk_score_of (calculate_risk_score s f a c) > 70))\<rparr>"
  using assms
  by (auto simp add: reaches_temporal_stage_def calculate_risk_score_def Let_def
        case_prod_beta out_defs)

lemma calc_early_return:
  assumes "\<not> reaches_temporal_stage s f c"
  shows "snd (calculate_risk_score s f a c) = s"
    and "stage_of (calculate_risk_score s f a c) \<noteq> ''confirmed_alert''"
    and "stage_of (calculate_risk_score s f a c) \<noteq> ''awaiting_confirmation''"
  using assms
  by (auto simp add: reaches_temporal_stage_def calculate_risk_score_def Let_def
        case_prod_beta out_defs)

lemma two_signal_plausible: "check_physiological_plausibility two_signal_features = (True, '''')"
  by (simp add: check_physiological_plausibility_def two_signal_features_def dict_get_def
        THRESHOLDS_defs)

lemma two_signal_not_critical: "check_critical_condition two_signal_features = (False, '''')"
  by (simp add: check_critical_condition_def two_signal_features_def dict_get_def
        THRESHOLDS_defs)

lemma two_signal_count:
  "count_abnormal_signals two_signal_features = (2, [''spo2_low'', ''sbp_low''])"
  by (simp add: count_abnormal_signals_def two_signal_features_def dict_get_def
        THRESHOLDS_defs)

lemma two_signal_motion:
  "assess_motion_artifact s two_signal_features = (motion_threshold s < 0, 0)"
  by (simp add: assess_motion_artifact_def two_signal_features_def dict_get_def)

lemma two_signal_reaches:
  "min_abnormal_signals s \<le> 2 \<Longrightarrow> motion_threshold s \<ge> 0 \<Longrightarrow> min_confidence s \<le> c \<Longrightarrow>
   reaches_temporal_stage s two_signal_features c"
  by (simp add: reaches_temporal_stage_def two_signal_plausible two_signal_not_critical
        two_signal_count two_signal_motion)

lemma motion_plausible: "check_physiological_plausibility test_features_motion = (True, '''')"
  by (simp add: check_physiological_plausibility_def test_features_motion_def dict_get_def
        THRESHOLDS_defs)

lemma motion_not_critical: "check_critical_condition test_features_motion = (False, '''')"
  by (simp add: check_critical_condition_def test_features_motion_def dict_get_def
        THRESHOLDS_defs)

lemma motion_count: "count_abnormal_signals test_features_motion = (1, [''spo2_low''])"
  by (simp add: count_abnormal_signals_def test_features_motion_def dict_get_def
        THRESHOLDS_defs)

lemma critical_plausible: "check_physiological_plausibility test_features_critical = (True, '''')"
  by (simp add: check_physiological_plausibility_def test_features_critical_def dict_get_def
        THRESHOLDS_defs)

lemma feed_neg:
  "buffer_size b < 0 \<Longrightarrow> recent_alerts b = [] \<Longrightarrow>
   feed b ps = (replicate (length ps) False, b)"
  by (induction ps) (simp_all add: should_alert_neg)

lemma run_calls_zero:
  "buffer_size b = 0 \<Longrightarrow> recent_alerts b = [] \<Longrightarrow> run_calls b cs = b"
proof (induction b cs rule: run_calls.induct)
  case (1 self)
  then show ?case by simp
next
  case (2 self p cs)
  then show ?case by (simp add: should_alert_zero)
next
  case (3 self cs)
  then show ?case by (simp add: buffer_reset_def)
qed

lemma calc_neg_buffer:
  assumes "buffer_size (alert_buffer s) < 0" and "recent_alerts (alert_buffer s) = []"
  shows "snd (calculate_risk_score s f a c) = s"
    and "stage_of (calculate_risk_score s f a c) \<noteq> ''confirmed_alert''"
proof -
  have sa: "should_alert (alert_buffer s) p = (False, alert_buffer s)" for p
    using assms by (rule should_alert_neg)
  show "snd (calculate_risk_score s f a c) = s"
    by (cases "reaches_temporal_stage s f c")
       (simp_all add: calc_temporal(4) calc_early_return(1) sa)
  show "stage_of (calculate_risk_score s f a c) \<noteq> ''confirmed_alert''"
    by (cases "reaches_temporal_stage s f c")
       (simp_all add: calc_temporal(2,3) calc_early_return(2) sa)
qed

subsection \<open>The safety override\<close>









lemma calc_implausible:
  assumes "\<not> fst (check_physiological_plausibility f)"
  shows "stage_of (calculate_risk_score s f a c) = ''plausibility_failed''"
    and "\<not> alert_of (calculate_risk_score s f a c)"
    and "risk_score_of (calculate_risk_score s f a c) = 0"
    and "snd (calculate_risk_score s f a c) = s"
  using assms
  by (simp_all add: calculate_risk_score_def Let_def case_prod_beta out_defs)

lemma alert_stages:
  assumes "alert_of (calculate_risk_score s f a c)"
  shows "stage_of (calculate_risk_score s f a c) = ''critical_override''
       \<or> stage_of (calculate_risk_score s f a c) = ''confirmed_alert''"
  using assms
  by (auto simp add: calculate_risk_score_def Let_def case_prod_beta out_defs
        split: if_splits)

lemma low_hr_high_spo2_implausible:
  "\<not> fst (check_physiological_plausibility
           (map_of [(''spo2_min'', 80), (''hr_mean'', 40), (''spo2_mean'', 98)]))"
  by (simp add: check_physiological_plausibility_def dict_get_def THRESHOLDS_defs)

lemma critical_is_critical: "fst (check_critical_condition test_features_critical)"
  by (simp add: check_critical_condition_def test_features_critical_def dict_get_def
        THRESHOLDS_defs)

section \<open>Claims about the temporal alert buffer\<close>

text \<open>
  Claim C3. \<^verbatim>\<open>should_alert\<close> appends the raw alert, drops the oldest entry if the list
  became longer than \<open>buffer_size\<close>, and returns true exactly when the kept list has
  \<open>buffer_size\<close> entries and all of them are true. From an empty buffer of size 3 the
  sequence true, true, false, true, true, true is answered with true only at the sixth
  call. In a session that starts from an empty buffer of size \<open>N \<ge> 0\<close>, a call returns true
  exactly when at least \<open>N\<close> raw alerts were fed so far and the last \<open>N\<close> of them are all
  true.
\<close>

theorem should_alert_full_and_all_true:
  "should_alert b p =
     (int (length (recent_alerts (snd (should_alert b p)))) = buffer_size b
        \<and> (\<forall>x \<in> set (recent_alerts (snd (should_alert b p))). x),
      b\<lparr>recent_alerts :=
          (if int (length (recent_alerts b @ [p])) > buffer_size b
           then tl (recent_alerts b @ [p]) else recent_alerts b @ [p])\<rparr>)
   \<and> fst (feed (TemporalAlertBuffer_init 3) [True, True, False, True, True, True])
       = [False, False, False, False, False, True]
   \<and> (0 \<le> N \<longrightarrow>
        fst (should_alert (snd (feed (TemporalAlertBuffer_init N) ps)) p)
          = (nat N \<le> length (ps @ [p])
             \<and> list_all (\<lambda>x. x) (drop (length (ps @ [p]) - nat N) (ps @ [p]))))"
proof (intro conjI impI)
  show "should_alert b p =
     (int (length (recent_alerts (snd (should_alert b p)))) = buffer_size b
        \<and> (\<forall>x \<in> set (recent_alerts (snd (should_alert b p))). x),
      b\<lparr>recent_alerts :=
          (if int (length (recent_alerts b @ [p])) > buffer_size b
           then tl (recent_alerts b @ [p]) else recent_alerts b @ [p])\<rparr>)"
    by (simp add: should_alert_def Let_def list_all_iff)
  show "fst (feed (TemporalAlertBuffer_init 3) [True, True, False, True, True, True])
       = [False, False, False, False, False, True]"
    by (simp add: TemporalAlertBuffer_init_def should_alert_def)
  show "fst (should_alert (snd (feed (TemporalAlertBuffer_init N) ps)) p)
          = (nat N \<le> length (ps @ [p])
             \<and> list_all (\<lambda>x. x) (drop (length (ps @ [p]) - nat N) (ps @ [p])))"
    if "0 \<le> N"
    using that by (rule last_N_all_true)
qed

theorem should_alert_full_and_all_true_witness:
  "should_alert \<lparr>buffer_size = 3, recent_alerts = [False, True, True]\<rparr> True
     = (True, \<lparr>buffer_size = 3, recent_alerts = [True, True, True]\<rparr>)
   \<and> should_alert \<lparr>buffer_size = 3, recent_alerts = [True, True]\<rparr> True
     = (True, \<lparr>buffer_size = 3, recent_alerts = [True, True, True]\<rparr>)
   \<and> should_alert \<lparr>buffer_size = 3, recent_alerts = [True]\<rparr> True
     = (False, \<lparr>buffer_size = 3, recent_alerts = [True, True]\<rparr>)
   \<and> fst (should_alert (snd (feed (TemporalAlertBuffer_init 2) [True, False, True])) True)"
  using should_alert_full_and_all_true
          [of "\<lparr>buffer_size = 3, recent_alerts = [False, True, True]\<rparr>" True 2
              "[True, False, True]"]
        should_alert_full_and_all_true
          [of "\<lparr>buffer_size = 3, recent_alerts = [True, True]\<rparr>" True 2 "[True, False, True]"]
        should_alert_full_and_all_true
          [of "\<lparr>buffer_size = 3, recent_alerts = [True]\<rparr>" True 2 "[True, False, True]"]
  by (simp add: should_alert_def TemporalAlertBuffer_init_def)

text \<open>
  Claim C5. For a buffer constructed with \<open>N \<ge> 0\<close>, after every call of any sequence of
  calls to \<^verbatim>\<open>should_alert\<close> and \<^verbatim>\<open>reset\<close> the list \<^verbatim>\<open>recent_alerts\<close> has at most \<open>N\<close>
  entries; \<^verbatim>\<open>reset\<close> empties the list of any buffer.
\<close>

theorem recent_alerts_bounded:
  assumes "0 \<le> N"
  shows "int (length (recent_alerts (run_calls (TemporalAlertBuffer_init N) (take k cs)))) \<le> N
     \<and> recent_alerts (buffer_reset b) = []"
  using assms run_calls_length [of "TemporalAlertBuffer_init N" "take k cs"]
  by (simp add: TemporalAlertBuffer_init_def buffer_reset_def)

theorem recent_alerts_bounded_witness:
  "(0 :: int) \<le> 2
   \<and> recent_alerts (run_calls (TemporalAlertBuffer_init 2)
        (take 3 [Should_alert True, Should_alert True, Should_alert False, Reset])) = [True, False]
   \<and> int (length (recent_alerts (run_calls (TemporalAlertBuffer_init 2)
        (take 3 [Should_alert True, Should_alert True, Should_alert False, Reset])))) \<le> 2
   \<and> recent_alerts (buffer_reset \<lparr>buffer_size = 1, recent_alerts = [True, True, False]\<rparr>) = []"
  using recent_alerts_bounded
          [of 2 3 "[Should_alert True, Should_alert True, Should_alert False, Reset]"
              "\<lparr>buffer_size = 1, recent_alerts = [True, True, False]\<rparr>"]
  by (simp add: TemporalAlertBuffer_init_def should_alert_def)

section \<open>Claims about the cascade\<close>

text \<open>
  Claim C1, as the code has it. The plausibility filter runs first. A window that passes
  it and has \<^verbatim>\<open>spo2_min\<close> below 88 is returned by stage 2 when \<^verbatim>\<open>critical_override\<close> is
  set: stage \<^verbatim>\<open>critical_override\<close>, alert, risk score \<open>95 + 5 * anomaly_score\<close>, which is at
  least 95 for a non-negative anomaly score; the confidence, the motion fields and the
  buffer are not read, and the buffer is left as it was. Every window that fails the
  plausibility filter is returned as \<^verbatim>\<open>plausibility_failed\<close> with risk score 0 and no
  alert, whatever its \<^verbatim>\<open>spo2_min\<close> is.
\<close>

theorem critical_override_precedence:
  "(fst (check_physiological_plausibility f) \<and> dict_get f ''spo2_min'' 100 < 88
      \<and> critical_override s \<and> 0 \<le> a \<longrightarrow>
        stage_of (calculate_risk_score s f a c) = ''critical_override''
        \<and> alert_of (calculate_risk_score s f a c)
        \<and> risk_score_of (calculate_risk_score s f a c) = 95 + a * 5
        \<and> 95 \<le> risk_score_of (calculate_risk_score s f a c)
        \<and> snd (calculate_risk_score s f a c) = s)
   \<and> (\<not> fst (check_physiological_plausibility f) \<longrightarrow>
        stage_of (calculate_risk_score s f a c) = ''plausibility_failed''
        \<and> \<not> alert_of (calculate_risk_score s f a c)
        \<and> risk_score_of (calculate_risk_score s f a c) = 0
        \<and> snd (calculate_risk_score s f a c) = s)"
proof (intro conjI impI)
  assume h: "fst (check_physiological_plausibility f) \<and> dict_get f ''spo2_min'' 100 < 88
      \<and> critical_override s \<and> 0 \<le> a"
  then have crit: "fst (check_critical_condition f)"
    by (simp add: check_critical_condition_def THRESHOLDS_defs)
  from h crit show "stage_of (calculate_risk_score s f a c) = ''critical_override''"
    by (simp add: calculate_risk_score_def Let_def case_prod_beta out_defs)
  from h crit show "alert_of (calculate_risk_score s f a c)"
    by (simp add: calculate_risk_score_def Let_def case_prod_beta out_defs)
  from h crit show r: "risk_score_of (calculate_risk_score s f a c) = 95 + a * 5"
    by (simp add: calculate_risk_score_def Let_def case_prod_beta out_defs)
  from h show "95 \<le> risk_score_of (calculate_risk_score s f a c)"
    unfolding r by simp
  from h crit show "snd (calculate_risk_score s f a c) = s"
    by (simp add: calculate_risk_score_def Let_def case_prod_beta out_defs)
next
  assume n: "\<not> fst (check_physiological_plausibility f)"
  show "stage_of (calculate_risk_score s f a c) = ''plausibility_failed''"
    using n by (rule calc_implausible(1))
  show "\<not> alert_of (calculate_risk_score s f a c)"
    using n by (rule calc_implausible(2))
  show "risk_score_of (calculate_risk_score s f a c) = 0"
    using n by (rule calc_implausible(3))
  show "snd (calculate_risk_score s f a c) = s"
    using n by (rule calc_implausible(4))
qed

theorem critical_override_precedence_witness:
  "dict_get test_features_critical ''spo2_min'' 100 < 88
   \<and> fst (check_physiological_plausibility test_features_critical)
   \<and> stage_of (calculate_risk_score default_scorer test_features_critical (8 / 10) (9 / 10))
       = ''critical_override''
   \<and> alert_of (calculate_risk_score default_scorer test_features_critical (8 / 10) (9 / 10))
   \<and> risk_score_of (calculate_risk_score default_scorer test_features_critical (8 / 10) (9 / 10))
       = 99
   \<and> \<not> fst (check_physiological_plausibility
             (map_of [(''spo2_min'', 80), (''hr_mean'', 40), (''spo2_mean'', 98)]))
   \<and> stage_of (calculate_risk_score default_scorer
        (map_of [(''spo2_min'', 80), (''hr_mean'', 40), (''spo2_mean'', 98)]) (8 / 10) (9 / 10))
       = ''plausibility_failed''
   \<and> risk_score_of (calculate_risk_score default_scorer
        (map_of [(''spo2_min'', 80), (''hr_mean'', 40), (''spo2_mean'', 98)]) (8 / 10) (9 / 10))
       = 0"
proof -
  let ?m = "map_of [(''spo2_min'', 80), (''hr_mean'', 40), (''spo2_mean'', 98 :: real)]"
  have 1: "dict_get test_features_critical ''spo2_min'' 100 < 88"
    by (simp add: test_features_critical_def dict_get_def)
  have 2: "critical_override default_scorer"
    by (simp add: default_scorer_def EnhancedRiskScorer_init_def)
  have 3: "fst (check_physiological_plausibility test_features_critical)"
    by (simp add: critical_plausible)
  have A: "stage_of (calculate_risk_score default_scorer test_features_critical (8 / 10) (9 / 10))
             = ''critical_override''
      \<and> alert_of (calculate_risk_score default_scorer test_features_critical (8 / 10) (9 / 10))
      \<and> risk_score_of (calculate_risk_score default_scorer test_features_critical (8 / 10) (9 / 10))
             = 95 + 8 / 10 * 5"
    using critical_override_precedence
            [of test_features_critical default_scorer "8 / 10" "9 / 10"] 1 2 3
    by simp
  have B: "stage_of (calculate_risk_score default_scorer ?m (8 / 10) (9 / 10))
             = ''plausibility_failed''
      \<and> risk_score_of (calculate_risk_score default_scorer ?m (8 / 10) (9 / 10)) = 0"
    using critical_override_precedence [of ?m default_scorer "8 / 10" "9 / 10"]
      low_hr_high_spo2_implausible
    by blast
  from A B 1 3 low_hr_high_spo2_implausible show ?thesis by simp
qed

text \<open>
  The claim without the plausibility condition fails: a window with \<^verbatim>\<open>spo2_min\<close> of 80 but
  a mean heart rate of 40 and a mean SpO2 of 98 is rejected by stage 1.
\<close>

theorem implausible_window_not_critical:
  "dict_get (map_of [(''spo2_min'', 80), (''hr_mean'', 40), (''spo2_mean'', 98)]) ''spo2_min'' 100
     < 88
   \<and> stage_of (calculate_risk_score default_scorer
        (map_of [(''spo2_min'', 80), (''hr_mean'', 40), (''spo2_mean'', 98)]) (1 / 2) (9 / 10))
       = ''plausibility_failed''
   \<and> \<not> alert_of (calculate_risk_score default_scorer
        (map_of [(''spo2_min'', 80), (''hr_mean'', 40), (''spo2_mean'', 98)]) (1 / 2) (9 / 10))
   \<and> risk_score_of (calculate_risk_score default_scorer
        (map_of [(''spo2_min'', 80), (''hr_mean'', 40), (''spo2_mean'', 98)]) (1 / 2) (9 / 10))
       = 0"
  by (simp add: calculate_risk_score_def Let_def case_prod_beta out_defs
        check_physiological_plausibility_def dict_get_def THRESHOLDS_defs)

text \<open>
  Claim C4. For an anomaly score in \<open>[0, 1]\<close> the returned risk score lies in \<open>[0, 100]\<close>,
  whatever the configuration, the features, the confidence and the buffer: on every branch
  of the cascade.
\<close>

theorem risk_score_in_range:
  assumes "0 \<le> a" and "a \<le> 1"
  shows "0 \<le> risk_score_of (calculate_risk_score s f a c)
       \<and> risk_score_of (calculate_risk_score s f a c) \<le> 100"
  using assms
  by (simp add: calculate_risk_score_def Let_def case_prod_beta out_defs)

theorem risk_score_in_range_witness:
  "(0 :: real) \<le> 7 / 10 \<and> (7 / 10 :: real) \<le> 1
   \<and> risk_score_of (calculate_risk_score default_scorer two_signal_features (7 / 10) (9 / 10)) = 80
   \<and> 0 \<le> risk_score_of (calculate_risk_score default_scorer two_signal_features (7 / 10) (9 / 10))
   \<and> risk_score_of (calculate_risk_score default_scorer two_signal_features (7 / 10) (9 / 10))
       \<le> 100"
  using risk_score_in_range [of "7 / 10" default_scorer two_signal_features "9 / 10"]
    calc_temporal(1) [OF two_signal_reaches, of default_scorer "9 / 10" "7 / 10"]
  by (simp add: two_signal_count default_scorer_def EnhancedRiskScorer_init_def)

text \<open>
  Claim C6, as the code has it. The third test window \<^verbatim>\<open>test_features_motion\<close> has one
  abnormal signal only (\<^verbatim>\<open>spo2_low\<close>: its \<^verbatim>\<open>spo2_min\<close> of 88 is not below 88, its
  \<^verbatim>\<open>sbp_mean\<close> of 105 is not below 100). With a minimum of two abnormal signals, stage 3
  returns it as \<^verbatim>\<open>insufficient_signals\<close> with risk score \<open>0.7 * 50 = 35\<close> and no alert,
  for every confidence, before the motion check of stage 4 is reached.
\<close>

theorem test_features_motion_insufficient_signals:
  assumes "2 \<le> min_abnormal_signals s"
  shows "stage_of (calculate_risk_score s test_features_motion (7 / 10) c) = ''insufficient_signals''
   \<and> \<not> alert_of (calculate_risk_score s test_features_motion (7 / 10) c)
   \<and> risk_score_of (calculate_risk_score s test_features_motion (7 / 10) c) = 35
   \<and> snd (calculate_risk_score s test_features_motion (7 / 10) c) = s"
  using assms
  by (simp add: calculate_risk_score_def Let_def out_defs motion_count motion_plausible
        motion_not_critical)

theorem test_features_motion_insufficient_signals_witness:
  "(2 :: int) \<le> min_abnormal_signals default_scorer
   \<and> stage_of (calculate_risk_score default_scorer test_features_motion (7 / 10) (7 / 10))
       = ''insufficient_signals''
   \<and> \<not> alert_of (calculate_risk_score default_scorer test_features_motion (7 / 10) (7 / 10))
   \<and> risk_score_of (calculate_risk_score default_scorer test_features_motion (7 / 10) (7 / 10))
       = 35"
  using test_features_motion_insufficient_signals [of default_scorer "7 / 10"]
  by (simp add: default_scorer_def EnhancedRiskScorer_init_def)

text \<open>
  The window has high motion, but the answer is not \<^verbatim>\<open>motion_artifact\<close>.
\<close>

theorem test_features_motion_not_motion_artifact:
  "fst (assess_motion_artifact default_scorer test_features_motion)
   \<and> stage_of (calculate_risk_score default_scorer test_features_motion (7 / 10) (7 / 10))
       \<noteq> ''motion_artifact''"
proof -
  have "fst (assess_motion_artifact default_scorer test_features_motion)"
    by (simp add: assess_motion_artifact_def test_features_motion_def dict_get_def
          default_scorer_def EnhancedRiskScorer_init_def)
  moreover have
    "stage_of (calculate_risk_score default_scorer test_features_motion (7 / 10) (7 / 10))
       \<noteq> ''motion_artifact''"
    by (simp add: calculate_risk_score_def Let_def out_defs motion_count motion_plausible
          motion_not_critical default_scorer_def EnhancedRiskScorer_init_def)
  ultimately show ?thesis by simp
qed

text \<open>
  Claim C7. For a window that reaches stage 6, the risk score is
  \<open>min (anomaly_score * 100 + min (abnormal_count * 5, 20), 100)\<close>, and with the features
  (hence the abnormal count), the configuration and the confidence fixed it does not
  decrease when the anomaly score increases.
\<close>

theorem composite_score_monotone:
  assumes "a1 \<le> a2" and "reaches_temporal_stage s f c"
  shows "risk_score_of (calculate_risk_score s f a1 c)
           = min (a1 * 100 + real (min (fst (count_abnormal_signals f) * 5) 20)) 100
       \<and> risk_score_of (calculate_risk_score s f a2 c)
           = min (a2 * 100 + real (min (fst (count_abnormal_signals f) * 5) 20)) 100
       \<and> risk_score_of (calculate_risk_score s f a1 c)
           \<le> risk_score_of (calculate_risk_score s f a2 c)"
  using assms(1) by (simp add: calc_temporal(1) [OF assms(2)] min_le_iff_disj)

theorem composite_score_monotone_witness:
  "(3 / 10 :: real) \<le> 7 / 10
   \<and> reaches_temporal_stage default_scorer two_signal_features (9 / 10)
   \<and> risk_score_of (calculate_risk_score default_scorer two_signal_features (3 / 10) (9 / 10)) = 40
   \<and> risk_score_of (calculate_risk_score default_scorer two_signal_features (7 / 10) (9 / 10)) = 80"
  using composite_score_monotone [of "3 / 10" "7 / 10" default_scorer two_signal_features "9 / 10"]
    two_signal_reaches [of default_scorer "9 / 10"]
  by (simp add: two_signal_count default_scorer_def EnhancedRiskScorer_init_def)

text \<open>
  Claim C8. When every physiological field is absent from the dictionary (the motion fields
  may be present), every access takes its default, and with a minimum of at least one
  abnormal signal (the default is 2) the call returns \<^verbatim>\<open>insufficient_signals\<close> with risk
  score \<open>anomaly_score * 50\<close> and no alert, for every anomaly score and confidence: never
  \<^verbatim>\<open>critical_override\<close>, never an alert.
\<close>

theorem absent_features_never_alert:
  assumes "f ''hr_mean'' = None" and "f ''hr_max'' = None" and "f ''hr_slope'' = None"
    and "f ''spo2_mean'' = None" and "f ''spo2_min'' = None" and "f ''spo2_slope'' = None"
    and "f ''sbp_mean'' = None" and "f ''dbp_mean'' = None"
    and "1 \<le> min_abnormal_signals s"
  shows "stage_of (calculate_risk_score s f a c) = ''insufficient_signals''
   \<and> stage_of (calculate_risk_score s f a c) \<noteq> ''critical_override''
   \<and> \<not> alert_of (calculate_risk_score s f a c)
   \<and> risk_score_of (calculate_risk_score s f a c) = a * 50"
proof -
  have 1: "check_physiological_plausibility f = (True, '''')"
    using assms by (simp add: check_physiological_plausibility_def dict_get_def THRESHOLDS_defs)
  have 2: "check_critical_condition f = (False, '''')"
    using assms by (simp add: check_critical_condition_def dict_get_def THRESHOLDS_defs)
  have 3: "count_abnormal_signals f = (0, [])"
    using assms by (simp add: count_abnormal_signals_def dict_get_def THRESHOLDS_defs)
  show ?thesis using assms(9)
    by (simp add: calculate_risk_score_def Let_def out_defs 1 2 3)
qed

theorem absent_features_never_alert_witness:
  "stage_of (calculate_risk_score default_scorer (map_of [(''motion_std'', 9 / 10)]) (9 / 10) 1)
     = ''insufficient_signals''
   \<and> \<not> alert_of (calculate_risk_score default_scorer (map_of [(''motion_std'', 9 / 10)]) (9 / 10) 1)
   \<and> risk_score_of (calculate_risk_score default_scorer (map_of [(''motion_std'', 9 / 10)]) (9 / 10) 1)
     = 45"
  using absent_features_never_alert [of "map_of [(''motion_std'', 9 / 10)]" default_scorer "9 / 10" 1]
  by (simp add: default_scorer_def EnhancedRiskScorer_init_def)

text \<open>
  Claim C9, as the code has it. Neither constructor checks its arguments: a negative
  \<^verbatim>\<open>temporal_buffer_size\<close> is stored as it is, and the session runs. In such a session
  every call of \<^verbatim>\<open>should_alert\<close> returns false and leaves the buffer empty, so
  \<^verbatim>\<open>calculate_risk_score\<close> leaves the scorer unchanged and never returns
  \<^verbatim>\<open>confirmed_alert\<close>: a window that reaches the temporal stage is always returned as
  \<^verbatim>\<open>awaiting_confirmation\<close> without an alert, and a call that alerts is a
  \<^verbatim>\<open>critical_override\<close>.
\<close>

theorem negative_buffer_size_accepted:
  assumes "N < 0"
  shows "TemporalAlertBuffer_init N = \<lparr>buffer_size = N, recent_alerts = []\<rparr>
    \<and> alert_buffer (EnhancedRiskScorer_init N mc ma mt co) = \<lparr>buffer_size = N, recent_alerts = []\<rparr>
    \<and> feed (TemporalAlertBuffer_init N) ps = (replicate (length ps) False, TemporalAlertBuffer_init N)
    \<and> snd (calculate_risk_score (EnhancedRiskScorer_init N mc ma mt co) f a c)
         = EnhancedRiskScorer_init N mc ma mt co
    \<and> stage_of (calculate_risk_score (EnhancedRiskScorer_init N mc ma mt co) f a c)
         \<noteq> ''confirmed_alert''
    \<and> (reaches_temporal_stage (EnhancedRiskScorer_init N mc ma mt co) f c \<longrightarrow>
         stage_of (calculate_risk_score (EnhancedRiskScorer_init N mc ma mt co) f a c)
           = ''awaiting_confirmation''
         \<and> \<not> alert_of (calculate_risk_score (EnhancedRiskScorer_init N mc ma mt co) f a c))
    \<and> (alert_of (calculate_risk_score (EnhancedRiskScorer_init N mc ma mt co) f a c) \<longrightarrow>
         stage_of (calculate_risk_score (EnhancedRiskScorer_init N mc ma mt co) f a c)
           = ''critical_override'')"
proof -
  let ?s = "EnhancedRiskScorer_init N mc ma mt co"
  have b: "buffer_size (alert_buffer ?s) < 0" "recent_alerts (alert_buffer ?s) = []"
    using assms by (simp_all add: EnhancedRiskScorer_init_def TemporalAlertBuffer_init_def)
  have sa: "should_alert (alert_buffer ?s) p = (False, alert_buffer ?s)" for p
    using b by (rule should_alert_neg)
  have fd: "feed (TemporalAlertBuffer_init N) ps
      = (replicate (length ps) False, TemporalAlertBuffer_init N)"
    using assms by (intro feed_neg) (simp_all add: TemporalAlertBuffer_init_def)
  have nc: "stage_of (calculate_risk_score ?s f a c) \<noteq> ''confirmed_alert''"
    using b by (rule calc_neg_buffer(2))
  have un: "snd (calculate_risk_score ?s f a c) = ?s"
    using b by (rule calc_neg_buffer(1))
  have aw: "stage_of (calculate_risk_score ?s f a c) = ''awaiting_confirmation''
         \<and> \<not> alert_of (calculate_risk_score ?s f a c)"
    if "reaches_temporal_stage ?s f c"
    using calc_temporal(2,3) [OF that, of a] by (simp add: sa)
  have cr: "stage_of (calculate_risk_score ?s f a c) = ''critical_override''"
    if "alert_of (calculate_risk_score ?s f a c)"
    using alert_stages [OF that] nc by simp
  have i1: "TemporalAlertBuffer_init N = \<lparr>buffer_size = N, recent_alerts = []\<rparr>"
    by (simp add: TemporalAlertBuffer_init_def)
  have i2: "alert_buffer ?s = \<lparr>buffer_size = N, recent_alerts = []\<rparr>"
    by (simp add: EnhancedRiskScorer_init_def TemporalAlertBuffer_init_def)
  from i1 i2 fd un nc aw cr show ?thesis by blast
qed

theorem negative_buffer_size_accepted_witness:
  "(- 1 :: int) < 0
   \<and> feed (TemporalAlertBuffer_init (- 1)) [True, True, True]
       = ([False, False, False], \<lparr>buffer_size = - 1, recent_alerts = []\<rparr>)
   \<and> reaches_temporal_stage (EnhancedRiskScorer_init (- 1) (7 / 10) 2 (1 / 2) True)
        two_signal_features (9 / 10)
   \<and> stage_of (calculate_risk_score (EnhancedRiskScorer_init (- 1) (7 / 10) 2 (1 / 2) True)
        two_signal_features (9 / 10) (9 / 10)) = ''awaiting_confirmation''
   \<and> \<not> alert_of (calculate_risk_score (EnhancedRiskScorer_init (- 1) (7 / 10) 2 (1 / 2) True)
        two_signal_features (9 / 10) (9 / 10))
   \<and> alert_of (calculate_risk_score (EnhancedRiskScorer_init (- 1) (7 / 10) 2 (1 / 2) True)
        test_features_critical (8 / 10) (9 / 10))
   \<and> stage_of (calculate_risk_score (EnhancedRiskScorer_init (- 1) (7 / 10) 2 (1 / 2) True)
        test_features_critical (8 / 10) (9 / 10)) = ''critical_override''"
proof -
  let ?s = "EnhancedRiskScorer_init (- 1) (7 / 10) 2 (1 / 2) True"
  have r: "reaches_temporal_stage ?s two_signal_features (9 / 10)"
    by (rule two_signal_reaches) (simp_all add: EnhancedRiskScorer_init_def)
  have al: "alert_of (calculate_risk_score ?s test_features_critical (8 / 10) (9 / 10))"
    by (simp add: calculate_risk_score_def Let_def case_prod_beta out_defs critical_plausible
          critical_is_critical EnhancedRiskScorer_init_def)
  have neg: "(- 1 :: int) < 0" by simp
  note t1 = negative_buffer_size_accepted
              [OF neg, of "7 / 10" 2 "1 / 2" True "[True, True, True]" two_signal_features
                  "9 / 10" "9 / 10"]
  note t2 = negative_buffer_size_accepted
              [OF neg, of "7 / 10" 2 "1 / 2" True "[True, True, True]" test_features_critical
                  "8 / 10" "9 / 10"]
  from t1 have "feed (TemporalAlertBuffer_init (- 1)) [True, True, True]
      = (replicate (length [True, True, True]) False, TemporalAlertBuffer_init (- 1))"
    by blast
  then have F: "feed (TemporalAlertBuffer_init (- 1)) [True, True, True]
      = ([False, False, False], \<lparr>buffer_size = - 1, recent_alerts = []\<rparr>)"
    by (simp add: TemporalAlertBuffer_init_def numeral_3_eq_3)
  from t1 r have G: "stage_of (calculate_risk_score ?s two_signal_features (9 / 10) (9 / 10))
        = ''awaiting_confirmation''
      \<and> \<not> alert_of (calculate_risk_score ?s two_signal_features (9 / 10) (9 / 10))"
    by blast
  from t2 al have H: "stage_of (calculate_risk_score ?s test_features_critical (8 / 10) (9 / 10))
        = ''critical_override''"
    by blast
  from neg F r G al H show ?thesis by simp
qed

text \<open>
  Construction with a buffer size of \<open>-1\<close> yields a scorer, and a window with a composite
  score of 100 is answered by it with \<^verbatim>\<open>awaiting_confirmation\<close>.
\<close>

theorem negative_buffer_size_session:
  "TemporalAlertBuffer_init (- 1) = \<lparr>buffer_size = - 1, recent_alerts = []\<rparr>
   \<and> EnhancedRiskScorer_init (- 1) (7 / 10) 2 (1 / 2) True
       = \<lparr>alert_buffer = \<lparr>buffer_size = - 1, recent_alerts = []\<rparr>, min_confidence = 7 / 10,
          min_abnormal_signals = 2, motion_threshold = 1 / 2, critical_override = True\<rparr>
   \<and> stage_of (calculate_risk_score (EnhancedRiskScorer_init (- 1) (7 / 10) 2 (1 / 2) True)
        two_signal_features (9 / 10) (9 / 10)) = ''awaiting_confirmation''
   \<and> risk_score_of (calculate_risk_score (EnhancedRiskScorer_init (- 1) (7 / 10) 2 (1 / 2) True)
        two_signal_features (9 / 10) (9 / 10)) = 100"
proof -
  let ?s = "EnhancedRiskScorer_init (- 1) (7 / 10) 2 (1 / 2) True"
  have r: "reaches_temporal_stage ?s two_signal_features (9 / 10)"
    by (rule two_signal_reaches) (simp_all add: EnhancedRiskScorer_init_def)
  have sa: "should_alert (alert_buffer ?s) p = (False, alert_buffer ?s)" for p
    by (rule should_alert_neg) (simp_all add: EnhancedRiskScorer_init_def TemporalAlertBuffer_init_def)
  show ?thesis
    using calc_temporal(1,2,3) [OF r, of "9 / 10"]
    by (simp add: sa two_signal_count) (simp add: EnhancedRiskScorer_init_def TemporalAlertBuffer_init_def)
qed

text \<open>
  Claim C10. In a session whose buffer was constructed with size 0, \<^verbatim>\<open>should_alert\<close>
  returns true on every call, whatever raw alert is passed, so every window that reaches
  the temporal stage is returned as \<^verbatim>\<open>confirmed_alert\<close> with an alert, also when its
  risk score is at most 70.
\<close>

theorem zero_buffer_size_always_confirms:
  assumes "alert_buffer s = run_calls (TemporalAlertBuffer_init 0) cs"
  shows "fst (should_alert (alert_buffer s) p)
    \<and> (reaches_temporal_stage s f c \<longrightarrow>
         stage_of (calculate_risk_score s f a c) = ''confirmed_alert''
         \<and> alert_of (calculate_risk_score s f a c)
         \<and> risk_score_of (calculate_risk_score s f a c)
             = min (a * 100 + real (min (fst (count_abnormal_signals f) * 5) 20)) 100
         \<and> snd (calculate_risk_score s f a c) = s)"
proof -
  have "run_calls (TemporalAlertBuffer_init 0) cs = TemporalAlertBuffer_init 0"
    by (rule run_calls_zero) (simp_all add: TemporalAlertBuffer_init_def)
  with assms have b: "buffer_size (alert_buffer s) = 0" "recent_alerts (alert_buffer s) = []"
    by (simp_all add: TemporalAlertBuffer_init_def)
  have sa: "should_alert (alert_buffer s) q = (True, alert_buffer s)" for q
    using b by (rule should_alert_zero)
  show ?thesis
    by (simp add: sa calc_temporal)
qed

theorem zero_buffer_size_always_confirms_witness:
  "reaches_temporal_stage (EnhancedRiskScorer_init 0 (7 / 10) 2 (1 / 2) True) two_signal_features (9 / 10)
   \<and> stage_of (calculate_risk_score (EnhancedRiskScorer_init 0 (7 / 10) 2 (1 / 2) True)
        two_signal_features (3 / 10) (9 / 10)) = ''confirmed_alert''
   \<and> alert_of (calculate_risk_score (EnhancedRiskScorer_init 0 (7 / 10) 2 (1 / 2) True)
        two_signal_features (3 / 10) (9 / 10))
   \<and> risk_score_of (calculate_risk_score (EnhancedRiskScorer_init 0 (7 / 10) 2 (1 / 2) True)
        two_signal_features (3 / 10) (9 / 10)) = 40
   \<and> fst (should_alert (TemporalAlertBuffer_init 0) False)"
  using zero_buffer_size_always_confirms
          [of "EnhancedRiskScorer_init 0 (7 / 10) 2 (1 / 2) True" "[]" False
              two_signal_features "9 / 10" "3 / 10"]
        two_signal_reaches [of "EnhancedRiskScorer_init 0 (7 / 10) 2 (1 / 2) True" "9 / 10"]
  by (simp add: two_signal_count EnhancedRiskScorer_init_def)

section \<open>Claims about the safety override\<close>



end
